theory Spec2Isabelle
  imports Main
begin

section \<open>The hook \<open>useNative\<close>: capability detection and routing\<close>

text \<open>
  The source is the React hook \<open>useNative\<close>. It keeps one piece of state, the
  capability record, and returns eight asynchronous operations. Each operation tests the
  global \<open>window.__TAURI__\<close> when it is called and either loads a plugin module of the
  native host dynamically or uses an API of the browser.

  The globals the hook reads, the plugin modules and the browser are outside the
  repository. They are modelled as follows: the globals as a record, the plugin modules as
  a record of functions giving the outcome of each command, the browser as an explicit
  state that every operation takes and returns.
\<close>

subsection \<open>Promises\<close>

text \<open>
  A promise is settled (resolved with a value, rejected with an error) or stays pending
  for ever. The errors are the three of the specification, the \<open>SecurityError\<close> that
  a browser raises when the page may not use its storage, and the \<open>TypeError\<close> that
  JavaScript raises on a property access on \<open>undefined\<close> and on an illegal
  constructor. No operation of the hook has a \<open>try\<close>: whatever a call throws inside
  an operation rejects the promise of that operation.
\<close>

datatype error =
  HostUnavailable | PermissionDenied | QuotaExceeded | SecurityError | TypeError

datatype 'a promise = Resolved 'a | Rejected error | Pending

text \<open>\<open>const x = await p; k(x)\<close> inside an async function.\<close>

definition await :: "'a promise \<Rightarrow> ('a \<Rightarrow> 'b promise) \<Rightarrow> 'b promise" where
  "await p k = (case p of Resolved x \<Rightarrow> k x | Rejected e \<Rightarrow> Rejected e | Pending \<Rightarrow> Pending)"

subsection \<open>The globals that the hook reads\<close>

text \<open>
  \<open>TAURI\<close> says whether \<open>window.__TAURI__\<close> (an object, hence truthy) is present;
  \<open>TAURI_NATIVE\<close> is \<open>window.__TAURI_NATIVE__?: boolean\<close>, \<open>None\<close> when it is
  undefined. The other two fields are the tests \<open>'Notification' in window\<close> and
  \<open>'clipboard' in navigator\<close>.
\<close>

record window =
  TAURI :: bool
  TAURI_NATIVE :: "bool option"
  Notification_in_window :: bool
  clipboard_in_navigator :: bool

text \<open>\<open>!!x\<close> for an optional boolean.\<close>

definition truthy :: "bool option \<Rightarrow> bool" where
  "truthy x = (case x of None \<Rightarrow> False | Some b \<Rightarrow> b)"

subsection \<open>Capabilities\<close>

record NativeCapabilities =
  isNative :: bool
  hasFileSystem :: bool
  hasNotifications :: bool
  hasClipboard :: bool
  hasDialog :: bool
  hasShell :: bool

text \<open>The argument of \<open>useState\<close>.\<close>

definition initial_capabilities :: NativeCapabilities where
  "initial_capabilities =
     \<lparr>isNative = False, hasFileSystem = False, hasNotifications = False,
      hasClipboard = False, hasDialog = False, hasShell = False\<rparr>"

text \<open>The record that \<open>checkCapabilities\<close> hands to \<open>setCapabilities\<close>.\<close>

definition checkCapabilities :: "window \<Rightarrow> NativeCapabilities" where
  "checkCapabilities w =
     (let n = (truthy (TAURI_NATIVE w) \<or> TAURI w) in
      \<lparr>isNative = n,
       hasFileSystem = n,
       hasNotifications = (n \<or> Notification_in_window w),
       hasClipboard = (n \<or> clipboard_in_navigator w),
       hasDialog = n,
       hasShell = n\<rparr>)"

subsection \<open>The native host\<close>

text \<open>
  The five plugin modules that the operations load with a dynamic \<open>import\<close>. The native
  host is opaque: \<open>available\<close> says whether the import of a module resolves, and every
  command is given by the promise it returns. \<open>readText\<close> may resolve to nothing
  (\<open>null\<close>); \<open>dialog_open\<close> resolves to \<open>null\<close>, one path or an array of paths.
\<close>

datatype plugin =
  PluginFs | PluginNotification | PluginClipboardManager | PluginDialog | PluginShell

datatype open_result = NoResult | Single string | Multiple "string list"

record bridge =
  available :: "plugin \<Rightarrow> bool"
  readTextFile :: "string \<Rightarrow> string promise"
  writeTextFile :: "string \<Rightarrow> string \<Rightarrow> unit promise"
  sendNotification :: "string \<Rightarrow> string option \<Rightarrow> unit promise"
  writeText :: "string \<Rightarrow> unit promise"
  readText :: "string option promise"
  dialog_open :: "bool option \<Rightarrow> bool option \<Rightarrow> open_result promise"
  dialog_save :: "string option \<Rightarrow> string option promise"
  shell_open :: "string \<Rightarrow> unit promise"

subsection \<open>The browser\<close>

text \<open>
  The state of the browser that the fallback paths read and write: the local key-value
  store, the notification permission with the number of permission prompts put to the
  user, the notifications displayed, the system clipboard, the calls of \<open>prompt\<close> and
  of \<open>window.open\<close>, and the plugin modules whose import was attempted.
\<close>

datatype permission = Default | Granted | Denied

record browser =
  localStorage :: "string \<rightharpoonup> string"
  permission :: permission
  permission_prompts :: nat
  notifications :: "(string \<times> string option) list"
  clipboard :: string
  prompted :: "(string \<times> string) list"
  opened :: "(string \<times> string) list"
  imported :: "plugin list"

text \<open>
  What the browser decides by itself: whether the page may use \<open>localStorage\<close> at all
  (reading the property throws a security error otherwise), whether the store accepts a
  new entry (\<open>setItem\<close> throws a quota error otherwise), whether the page may use the
  clipboard, and whether \<open>new Notification\<close> is a legal call (some browsers have the
  interface and throw a type error on its constructor).
\<close>

record host =
  storage_blocked :: bool
  quota :: "(string \<rightharpoonup> string) \<Rightarrow> string \<Rightarrow> string \<Rightarrow> bool"
  clipboard_allowed :: bool
  Notification_constructor :: bool

definition getItem :: "host \<Rightarrow> string \<Rightarrow> browser \<Rightarrow> error + string option" where
  "getItem h k st = (if storage_blocked h then Inl SecurityError else Inr (localStorage st k))"

definition setItem :: "host \<Rightarrow> string \<Rightarrow> string \<Rightarrow> browser \<Rightarrow> unit promise \<times> browser" where
  "setItem h k v st =
     (if storage_blocked h then (Rejected SecurityError, st)
      else if quota h (localStorage st) k v
      then (Resolved (), st\<lparr>localStorage := (localStorage st)(k \<mapsto> v)\<rparr>)
      else (Rejected QuotaExceeded, st))"

text \<open>\<open>x || d\<close> for a string that may be \<open>null\<close>: the empty string is falsy too.\<close>

definition or_else :: "string option \<Rightarrow> string \<Rightarrow> string" where
  "or_else x d = (case x of None \<Rightarrow> d | Some s \<Rightarrow> if s = [] then d else s)"

text \<open>
  \<open>Notification.requestPermission()\<close>: the user is asked only while the permission is
  undetermined, and \<open>answer\<close> is how the promise of the request settles then: resolved
  with what the user says (\<open>Default\<close> when the prompt is dismissed), pending while the
  prompt is left open, or rejected by the browser. Otherwise the promise resolves to the
  permission as it stands.
\<close>

definition requestPermission ::
  "permission promise \<Rightarrow> browser \<Rightarrow> permission promise \<times> browser" where
  "requestPermission answer st =
     (if permission st = Default
      then (answer,
            st\<lparr>permission := (case answer of Resolved p \<Rightarrow> p | _ \<Rightarrow> Default),
               permission_prompts := Suc (permission_prompts st)\<rparr>)
      else (Resolved (permission st), st))"

text \<open>
  \<open>new Notification(title, { body })\<close> as the last statement of \<open>notify\<close>: the
  notification is displayed, or the constructor throws and nothing is displayed.
\<close>

definition display :: "string \<Rightarrow> string option \<Rightarrow> browser \<Rightarrow> browser" where
  "display title body st = st\<lparr>notifications := notifications st @ [(title, body)]\<rparr>"

definition new_Notification ::
  "host \<Rightarrow> string \<Rightarrow> string option \<Rightarrow> browser \<Rightarrow> unit promise \<times> browser" where
  "new_Notification h title body st =
     (if Notification_constructor h then (Resolved (), display title body st)
      else (Rejected TypeError, st))"

text \<open>\<open>await import(m)\<close>, followed by the rest of the native branch.\<close>

definition import_then :: "bridge \<Rightarrow> plugin \<Rightarrow> 'a promise \<Rightarrow> browser \<Rightarrow> 'a promise \<times> browser" where
  "import_then b m rest st =
     (if available b m then rest else Rejected HostUnavailable,
      st\<lparr>imported := imported st @ [m]\<rparr>)"

subsection \<open>File system\<close>

text \<open>The template literal \<open>`zos:file:${path}`\<close>.\<close>

definition file_key :: "string \<Rightarrow> string" where
  "file_key path = ''zos:file:'' @ path"

definition readFile ::
  "window \<Rightarrow> bridge \<Rightarrow> host \<Rightarrow> string \<Rightarrow> browser \<Rightarrow> string promise \<times> browser" where
  "readFile w b h path st =
     (if TAURI w then import_then b PluginFs (readTextFile b path) st
      else (case getItem h (file_key path) st of
              Inl e \<Rightarrow> (Rejected e, st)
            | Inr item \<Rightarrow> (Resolved (or_else item []), st)))"

definition writeFile ::
  "window \<Rightarrow> bridge \<Rightarrow> host \<Rightarrow> string \<Rightarrow> string \<Rightarrow> browser \<Rightarrow> unit promise \<times> browser" where
  "writeFile w b h path content st =
     (if TAURI w then import_then b PluginFs (writeTextFile b path content) st
      else setItem h (file_key path) content st)"

subsection \<open>Notifications\<close>

text \<open>
  \<open>answer\<close> is how the permission request settles, if a prompt is shown;
  \<open>const permission = await Notification.requestPermission()\<close> lets the operation go
  on only when the request resolves.
\<close>

definition notify ::
  "window \<Rightarrow> bridge \<Rightarrow> host \<Rightarrow> string \<Rightarrow> string option \<Rightarrow> permission promise \<Rightarrow> browser
     \<Rightarrow> unit promise \<times> browser" where
  "notify w b h title body answer st =
     (if TAURI w then import_then b PluginNotification (sendNotification b title body) st
      else if Notification_in_window w \<and> permission st = Granted
        then new_Notification h title body st
      else if Notification_in_window w
        then (let (r, st') = requestPermission answer st in
              case r of
                Resolved p \<Rightarrow>
                  (if p = Granted then new_Notification h title body st' else (Resolved (), st'))
              | Rejected e \<Rightarrow> (Rejected e, st')
              | Pending \<Rightarrow> (Pending, st'))
      else (Resolved (), st))"

subsection \<open>Clipboard\<close>

text \<open>
  Without \<open>'clipboard' in navigator\<close> the expression \<open>navigator.clipboard.writeText\<close>
  reads a property of \<open>undefined\<close>.
\<close>

definition copyToClipboard ::
  "window \<Rightarrow> bridge \<Rightarrow> host \<Rightarrow> string \<Rightarrow> browser \<Rightarrow> unit promise \<times> browser" where
  "copyToClipboard w b h text st =
     (if TAURI w then import_then b PluginClipboardManager (writeText b text) st
      else if \<not> clipboard_in_navigator w then (Rejected TypeError, st)
      else if clipboard_allowed h then (Resolved (), st\<lparr>clipboard := text\<rparr>)
      else (Rejected PermissionDenied, st))"

definition readFromClipboard ::
  "window \<Rightarrow> bridge \<Rightarrow> host \<Rightarrow> browser \<Rightarrow> string promise \<times> browser" where
  "readFromClipboard w b h st =
     (if TAURI w
      then import_then b PluginClipboardManager
             (await (readText b) (\<lambda>r. Resolved (or_else r []))) st
      else if \<not> clipboard_in_navigator w then (Rejected TypeError, st)
      else if clipboard_allowed h then (Resolved (clipboard st), st)
      else (Rejected PermissionDenied, st))"

subsection \<open>Dialogs\<close>

text \<open>
  \<open>options?: { multiple?: boolean; directory?: boolean }\<close> and
  \<open>options?: { defaultPath?: string }\<close>; \<open>options?.f\<close> is undefined when the options
  are.
\<close>

record open_options =
  multiple :: "bool option"
  directory :: "bool option"

record save_options =
  defaultPath :: "string option"

definition opt_multiple :: "open_options option \<Rightarrow> bool option" where
  "opt_multiple options = (case options of None \<Rightarrow> None | Some opts \<Rightarrow> multiple opts)"

definition opt_directory :: "open_options option \<Rightarrow> bool option" where
  "opt_directory options = (case options of None \<Rightarrow> None | Some opts \<Rightarrow> directory opts)"

definition opt_defaultPath :: "save_options option \<Rightarrow> string option" where
  "opt_defaultPath options = (case options of None \<Rightarrow> None | Some opts \<Rightarrow> defaultPath opts)"

text \<open>
  The native branch of \<open>showOpenDialog\<close> after \<open>await mod.open(...)\<close>:
  \<open>if (!result) return []; return Array.isArray(result) ? result : [result]\<close>.
  The empty string is falsy, an array never is.
\<close>

definition open_paths :: "open_result \<Rightarrow> string list" where
  "open_paths r =
     (case r of NoResult \<Rightarrow> [] | Single p \<Rightarrow> (if p = [] then [] else [p]) | Multiple ps \<Rightarrow> ps)"

text \<open>
  The file input of the browser branch. The source sets \<open>type\<close>, \<open>multiple\<close> and
  \<open>onchange\<close>, and nothing else. After \<open>input.click()\<close> the user either chooses
  files, and the browser fires \<open>change\<close> with \<open>input.files\<close> as it then is (a list
  of files, or \<open>null\<close>), or dismisses the picker, and the browser fires
  \<open>cancel\<close>, for which the element has no handler. The promise built by
  \<open>new Promise((resolve) => ...)\<close> is settled by a call of \<open>resolve\<close> only.
\<close>

datatype web_file = File string

fun file_name :: "web_file \<Rightarrow> string" where
  "file_name (File n) = n"

datatype input_event = Change "web_file list option" | Cancel

record 'a file_input =
  input_multiple :: bool
  onchange :: "web_file list option \<Rightarrow> 'a promise"

definition click :: "'a file_input \<Rightarrow> input_event \<Rightarrow> 'a promise" where
  "click input ev =
     (case ev of
        Change files \<Rightarrow> onchange input files
      | Cancel \<Rightarrow> Pending)"

text \<open>\<open>input.files || []\<close>.\<close>

definition files_or_none :: "web_file list option \<Rightarrow> web_file list" where
  "files_or_none files = (case files of None \<Rightarrow> [] | Some fs \<Rightarrow> fs)"

text \<open>\<open>ev\<close> is what the user does with the file picker.\<close>

definition showOpenDialog ::
  "window \<Rightarrow> bridge \<Rightarrow> open_options option \<Rightarrow> input_event \<Rightarrow> browser
     \<Rightarrow> string list promise \<times> browser" where
  "showOpenDialog w b options ev st =
     (if TAURI w
      then import_then b PluginDialog
             (await (dialog_open b (opt_multiple options) (opt_directory options))
                (\<lambda>r. Resolved (open_paths r))) st
      else (click \<lparr>input_multiple = truthy (opt_multiple options),
                   onchange = (\<lambda>files. Resolved (map file_name (files_or_none files)))\<rparr>
              ev, st))"

text \<open>\<open>reply\<close> is what \<open>prompt\<close> returns: the text typed, or \<open>null\<close> on cancel.\<close>

definition showSaveDialog ::
  "window \<Rightarrow> bridge \<Rightarrow> save_options option \<Rightarrow> string option \<Rightarrow> browser
     \<Rightarrow> string option promise \<times> browser" where
  "showSaveDialog w b options reply st =
     (if TAURI w then import_then b PluginDialog (dialog_save b (opt_defaultPath options)) st
      else (Resolved reply,
            st\<lparr>prompted := prompted st
                  @ [(''Save as:'', or_else (opt_defaultPath options) ''untitled.txt'')]\<rparr>))"

subsection \<open>Shell\<close>

definition openExternal :: "window \<Rightarrow> bridge \<Rightarrow> string \<Rightarrow> browser \<Rightarrow> unit promise \<times> browser" where
  "openExternal w b url st =
     (if TAURI w then import_then b PluginShell (shell_open b url) st
      else (Resolved (), st\<lparr>opened := opened st @ [(url, ''_blank'')]\<rparr>))"

subsection \<open>The surface returned by the hook\<close>

text \<open>
  A call of one of the eight operations, with what the user answers where the operation
  asks, and the value its promise resolves to.
\<close>

datatype call =
    ReadFile string
  | WriteFile string string
  | Notify string "string option" "permission promise"
  | CopyToClipboard string
  | ReadFromClipboard
  | ShowOpenDialog "open_options option" input_event
  | ShowSaveDialog "save_options option" "string option"
  | OpenExternal string

datatype result = Done | Text string | Names "string list" | Path "string option"

definition tag :: "('a \<Rightarrow> result) \<Rightarrow> 'a promise \<times> browser \<Rightarrow> result promise \<times> browser" where
  "tag f r = (map_promise f (fst r), snd r)"

fun perform :: "window \<Rightarrow> bridge \<Rightarrow> host \<Rightarrow> call \<Rightarrow> browser \<Rightarrow> result promise \<times> browser" where
  "perform w b h (ReadFile path) st = tag Text (readFile w b h path st)"
| "perform w b h (WriteFile path content) st = tag (\<lambda>_. Done) (writeFile w b h path content st)"
| "perform w b h (Notify title body answer) st =
     tag (\<lambda>_. Done) (notify w b h title body answer st)"
| "perform w b h (CopyToClipboard text) st = tag (\<lambda>_. Done) (copyToClipboard w b h text st)"
| "perform w b h ReadFromClipboard st = tag Text (readFromClipboard w b h st)"
| "perform w b h (ShowOpenDialog options ev) st = tag Names (showOpenDialog w b options ev st)"
| "perform w b h (ShowSaveDialog options reply) st = tag Path (showSaveDialog w b options reply st)"
| "perform w b h (OpenExternal url) st = tag (\<lambda>_. Done) (openExternal w b url st)"

text \<open>The module that the native branch of an operation imports.\<close>

fun plugin_of :: "call \<Rightarrow> plugin" where
  "plugin_of (ReadFile _) = PluginFs"
| "plugin_of (WriteFile _ _) = PluginFs"
| "plugin_of (Notify _ _ _) = PluginNotification"
| "plugin_of (CopyToClipboard _) = PluginClipboardManager"
| "plugin_of ReadFromClipboard = PluginClipboardManager"
| "plugin_of (ShowOpenDialog _ _) = PluginDialog"
| "plugin_of (ShowSaveDialog _ _) = PluginDialog"
| "plugin_of (OpenExternal _) = PluginShell"

text \<open>
  The native path of each operation as the specification describes it: the operation
  delegates to the corresponding command of the native host, and what the command settles
  to is what the caller gets (the empty string for a clipboard read that yields nothing,
  the list of the selected paths for the open dialog).
\<close>

fun native_call :: "bridge \<Rightarrow> call \<Rightarrow> result promise" where
  "native_call b (ReadFile path) = map_promise Text (readTextFile b path)"
| "native_call b (WriteFile path content) = map_promise (\<lambda>_. Done) (writeTextFile b path content)"
| "native_call b (Notify title body _) = map_promise (\<lambda>_. Done) (sendNotification b title body)"
| "native_call b (CopyToClipboard text) = map_promise (\<lambda>_. Done) (writeText b text)"
| "native_call b ReadFromClipboard = map_promise (\<lambda>r. Text (or_else r [])) (readText b)"
| "native_call b (ShowOpenDialog options _) =
     map_promise (\<lambda>r. Names (open_paths r))
       (dialog_open b (opt_multiple options) (opt_directory options))"
| "native_call b (ShowSaveDialog options _) =
     map_promise Path (dialog_save b (opt_defaultPath options))"
| "native_call b (OpenExternal url) = map_promise (\<lambda>_. Done) (shell_open b url)"

subsection \<open>A session of the hook\<close>

text \<open>
  A mounted hook: the capability state of \<open>useState\<close>, whether the effect has run (its
  dependency list is empty, so it runs once after the first render), the globals and the
  browser. The events of a session are the run of the effect, a call of an operation, and
  a change of the globals by some other script.
\<close>

record session =
  capabilities :: NativeCapabilities
  effect_done :: bool
  globals :: window
  world :: browser

datatype event = Effect | Call call | Inject window

definition useNative :: "window \<Rightarrow> browser \<Rightarrow> session" where
  "useNative w st =
     \<lparr>capabilities = initial_capabilities, effect_done = False, globals = w, world = st\<rparr>"

fun step :: "bridge \<Rightarrow> host \<Rightarrow> session \<Rightarrow> event \<Rightarrow> session" where
  "step b h s Effect =
     (if effect_done s then s
      else s\<lparr>capabilities := checkCapabilities (globals s), effect_done := True\<rparr>)"
| "step b h s (Call c) = s\<lparr>world := snd (perform (globals s) b h c (world s))\<rparr>"
| "step b h s (Inject w) = s\<lparr>globals := w\<rparr>"

definition run :: "bridge \<Rightarrow> host \<Rightarrow> session \<Rightarrow> event list \<Rightarrow> session" where
  "run b h s es = foldl (step b h) s es"

text \<open>The capability records a session shows, one after each event, the first on mount.\<close>

fun shown :: "bridge \<Rightarrow> host \<Rightarrow> session \<Rightarrow> event list \<Rightarrow> NativeCapabilities list" where
  "shown b h s [] = [capabilities s]"
| "shown b h s (e # es) = capabilities s # shown b h (step b h s e) es"

text \<open>How often consecutive entries of a list differ.\<close>

fun changes :: "'a list \<Rightarrow> nat" where
  "changes (x # y # ys) = (if x = y then 0 else 1) + changes (y # ys)"
| "changes _ = 0"

subsection \<open>Concrete environments\<close>

text \<open>
  The window of the test environment (no marker, no Notification API, a clipboard), a
  window that carries the flag \<open>__TAURI_NATIVE__\<close> only, and a window with the
  \<open>__TAURI__\<close> object. \<open>tauri_plugin_mock\<close> is the module that the test
  configuration puts in place of the five plugins; \<open>no_plugins\<close> is a host whose
  plugin modules fail to load. \<open>unlimited\<close> is a browser that refuses nothing,
  \<open>storage_off\<close> one that blocks the local store, \<open>illegal_constructor\<close> one in
  which \<open>new Notification\<close> throws.
\<close>

definition jsdom :: window where
  "jsdom = \<lparr>TAURI = False, TAURI_NATIVE = None, Notification_in_window = False,
            clipboard_in_navigator = True\<rparr>"

definition flag_only :: window where
  "flag_only = \<lparr>TAURI = False, TAURI_NATIVE = Some True, Notification_in_window = False,
            clipboard_in_navigator = False\<rparr>"

definition tauri_shell :: window where
  "tauri_shell = \<lparr>TAURI = True, TAURI_NATIVE = None, Notification_in_window = False,
            clipboard_in_navigator = False\<rparr>"

definition tauri_plugin_mock :: bridge where
  "tauri_plugin_mock =
     \<lparr>available = (\<lambda>_. True),
      readTextFile = (\<lambda>_. Resolved []),
      writeTextFile = (\<lambda>_ _. Resolved ()),
      sendNotification = (\<lambda>_ _. Resolved ()),
      writeText = (\<lambda>_. Resolved ()),
      readText = Resolved (Some []),
      dialog_open = (\<lambda>_ _. Resolved NoResult),
      dialog_save = (\<lambda>_. Resolved None),
      shell_open = (\<lambda>_. Resolved ())\<rparr>"

definition no_plugins :: bridge where
  "no_plugins = tauri_plugin_mock\<lparr>available := (\<lambda>_. False)\<rparr>"

definition unlimited :: host where
  "unlimited = \<lparr>storage_blocked = False, quota = (\<lambda>_ _ _. True), clipboard_allowed = True,
                Notification_constructor = True\<rparr>"

definition storage_off :: host where
  "storage_off = unlimited\<lparr>storage_blocked := True\<rparr>"

definition illegal_constructor :: host where
  "illegal_constructor = unlimited\<lparr>Notification_constructor := False\<rparr>"

definition fresh :: browser where
  "fresh = \<lparr>localStorage = Map.empty, permission = Default, permission_prompts = 0,
            notifications = [], clipboard = [], prompted = [], opened = [], imported = []\<rparr>"

text \<open>A short session: the effect, a write, a notification and a read.\<close>

definition example_session :: "event list" where
  "example_session =
     [Effect, Call (WriteFile ''/b.txt'' ''x''), Call (Notify ''hi'' None (Resolved Granted)),
      Call (ReadFile ''/b.txt'')]"

text \<open>
  Two stores with one file each, and a session in which the effect is triggered twice.
\<close>

definition stored :: browser where
  "stored = fresh\<lparr>localStorage := [file_key ''/a.txt'' \<mapsto> ''local'']\<rparr>"

definition other_file :: browser where
  "other_file = fresh\<lparr>localStorage := [file_key ''/b.txt'' \<mapsto> ''old'']\<rparr>"

definition busy_session :: "event list" where
  "busy_session =
     [Call (ReadFile ''/a.txt''), Effect, Call (OpenExternal ''https://example.org''), Effect]"

text \<open>
  A session in which the object \<open>__TAURI__\<close> appears between two reads, browsers in
  which the notification permission is decided, the browser after a permission prompt
  that left the permission \<open>p\<close>, and the test window with a Notification API.
\<close>

definition switching :: "event list" where
  "switching =
     [Effect, Call (ReadFile ''/a.txt''), Inject tauri_shell, Call (ReadFile ''/a.txt'')]"

definition granted :: browser where
  "granted = fresh\<lparr>permission := Granted\<rparr>"

definition denied :: browser where
  "denied = fresh\<lparr>permission := Denied\<rparr>"

definition asked :: "permission \<Rightarrow> browser \<Rightarrow> browser" where
  "asked p st = st\<lparr>permission := p, permission_prompts := Suc (permission_prompts st)\<rparr>"

definition with_notifications :: window where
  "with_notifications = jsdom\<lparr>Notification_in_window := True\<rparr>"

section \<open>Properties\<close>

subsection \<open>Auxiliary facts\<close>

lemmas op_defs = readFile_def writeFile_def notify_def copyToClipboard_def readFromClipboard_def
  showOpenDialog_def showSaveDialog_def openExternal_def

lemma file_key_inj: "file_key p = file_key q \<longleftrightarrow> p = q"
  by (simp add: file_key_def)

lemma snd_tag: "snd (tag f r) = snd r"
  by (simp add: tag_def)

lemma snd_import_then: "snd (import_then b m rest st) = st\<lparr>imported := imported st @ [m]\<rparr>"
  by (simp add: import_then_def)

lemma map_promise_await:
  "map_promise f (await p (\<lambda>x. Resolved (g x))) = map_promise (\<lambda>x. f (g x)) p"
  by (cases p) (simp_all add: await_def)

text \<open>With the object present an operation is the command of the native host.\<close>

lemma perform_native:
  assumes "TAURI w"
  shows "perform w b h c st =
           (if available b (plugin_of c) then native_call b c else Rejected HostUnavailable,
            st\<lparr>imported := imported st @ [plugin_of c]\<rparr>)"
  using assms
  by (cases c) (simp_all add: tag_def op_defs import_then_def map_promise_await)

lemma perform_browser_imported:
  "\<not> TAURI w \<Longrightarrow> imported (snd (perform w b h c st)) = imported st"
  by (cases c)
     (simp_all add: snd_tag op_defs setItem_def getItem_def new_Notification_def display_def
        requestPermission_def split: prod.splits promise.splits)

lemma writeFile_browser:
  "\<not> TAURI w \<Longrightarrow> writeFile w b h P C st =
     (if storage_blocked h then (Rejected SecurityError, st)
      else if quota h (localStorage st) (file_key P) C
      then (Resolved (), st\<lparr>localStorage := (localStorage st)(file_key P \<mapsto> C)\<rparr>)
      else (Rejected QuotaExceeded, st))"
  by (simp add: writeFile_def setItem_def)

text \<open>The write resolves exactly when the store is accessible and accepts the entry.\<close>

lemma writeFile_browser_resolves:
  "\<not> TAURI w \<Longrightarrow>
     (fst (writeFile w b h P C st) = Resolved ()) =
     (\<not> storage_blocked h \<and> quota h (localStorage st) (file_key P) C)"
  by (simp add: writeFile_browser)

lemma readFile_browser:
  "\<not> TAURI w \<Longrightarrow> readFile w b h P st =
     (if storage_blocked h then Rejected SecurityError
      else Resolved (or_else (localStorage st (file_key P)) []), st)"
  by (simp add: readFile_def getItem_def)


lemma or_else_None: "or_else None d = d"
  by (simp add: or_else_def)

lemma perform_localStorage:
  "localStorage (snd (perform w b h c st)) =
     (case c of
        WriteFile P C \<Rightarrow>
          (if \<not> TAURI w \<and> \<not> storage_blocked h \<and> quota h (localStorage st) (file_key P) C
           then (localStorage st)(file_key P \<mapsto> C) else localStorage st)
      | _ \<Rightarrow> localStorage st)"
  by (cases c)
     (simp_all add: snd_tag op_defs setItem_def getItem_def new_Notification_def display_def
        requestPermission_def snd_import_then split: prod.splits promise.splits)

text \<open>Sessions: a key that no event writes stays absent.\<close>

lemma step_absent:
  assumes "localStorage (world s) (file_key P) = None" and "\<forall>C. e \<noteq> Call (WriteFile P C)"
  shows "localStorage (world (step b h s e)) (file_key P) = None"
proof (cases e)
  case Effect
  with assms show ?thesis by simp
next
  case (Inject w)
  with assms show ?thesis by simp
next
  case (Call c)
  with assms have "\<forall>C. c \<noteq> WriteFile P C" by simp
  with assms(1) have "localStorage (snd (perform (globals s) b h c (world s))) (file_key P) = None"
    unfolding perform_localStorage by (auto split: call.splits simp: file_key_inj)
  with Call show ?thesis by simp
qed

lemma run_Nil: "run b h s [] = s"
  by (simp add: run_def)

lemma run_Cons: "run b h s (e # es) = run b h (step b h s e) es"
  by (simp add: run_def)

lemma run_absent:
  assumes "localStorage (world s) (file_key P) = None"
    and "\<forall>C. Call (WriteFile P C) \<notin> set es"
  shows "localStorage (world (run b h s es)) (file_key P) = None"
  using assms
proof (induction es arbitrary: s)
  case Nil
  then show ?case by (simp add: run_Nil)
next
  case (Cons e es)
  from Cons.prems have "\<forall>C. e \<noteq> Call (WriteFile P C)" by auto
  with Cons.prems(1) have "localStorage (world (step b h s e)) (file_key P) = None"
    by (rule step_absent)
  moreover from Cons.prems have "\<forall>C. Call (WriteFile P C) \<notin> set es" by auto
  ultimately show ?case by (simp add: run_Cons Cons.IH)
qed

lemma perform_same_browser:
  assumes "\<not> TAURI w" and "\<not> TAURI w'"
    and "Notification_in_window w' = Notification_in_window w"
    and "clipboard_in_navigator w' = clipboard_in_navigator w"
  shows "perform w b h c st = perform w' b' h c st"
  using assms by (cases c) (simp_all add: op_defs)

text \<open>Sessions: the capability record, the effect and the globals.\<close>

lemma step_capabilities:
  "capabilities (step b h s e) =
     (if e = Effect \<and> \<not> effect_done s then checkCapabilities (globals s) else capabilities s)"
  by (cases e) simp_all

lemma step_effect_done: "effect_done (step b h s e) = (effect_done s \<or> e = Effect)"
  by (cases e) simp_all

lemma changes_shown:
  "changes (x # shown b h s es) = (if x = capabilities s then 0 else 1) + changes (shown b h s es)"
  by (cases es) simp_all

lemma changes_after_effect: "effect_done s \<Longrightarrow> changes (shown b h s es) = 0"
proof (induction es arbitrary: s)
  case Nil
  show ?case by simp
next
  case (Cons e es)
  from Cons.prems have "effect_done (step b h s e)" and "capabilities (step b h s e) = capabilities s"
    by (simp_all add: step_effect_done step_capabilities)
  with Cons.IH [of "step b h s e"] show ?case
    by (simp add: changes_shown)
qed

lemma changes_at_most_once: "changes (shown b h s es) \<le> 1"
proof (induction es arbitrary: s)
  case Nil
  show ?case by simp
next
  case (Cons e es)
  show ?case
  proof (cases "capabilities (step b h s e) = capabilities s")
    case True
    with Cons.IH [of "step b h s e"] show ?thesis
      by (simp add: changes_shown)
  next
    case False
    then have "effect_done (step b h s e)"
      by (simp add: step_capabilities step_effect_done split: if_splits)
    then have "changes (shown b h (step b h s e) es) = 0"
      by (rule changes_after_effect)
    then show ?thesis
      by (simp add: changes_shown)
  qed
qed

lemma run_without_effect: "Effect \<notin> set es \<Longrightarrow> capabilities (run b h s es) = capabilities s"
  by (induction es arbitrary: s) (auto simp: run_Nil run_Cons step_capabilities)

lemma run_without_inject: "\<forall>w. Inject w \<notin> set es \<Longrightarrow> globals (run b h s es) = globals s"
proof (induction es arbitrary: s)
  case Nil
  show ?case by (simp add: run_Nil)
next
  case (Cons e es)
  from Cons.prems have "globals (step b h s e) = globals s"
    by (cases e) auto
  moreover from Cons.prems have "\<forall>w. Inject w \<notin> set es" by simp
  ultimately show ?case
    by (simp add: run_Cons Cons.IH)
qed

lemma perform_bridge_unused:
  "\<not> TAURI w \<Longrightarrow> perform w b h c st = perform w b' h c st"
  by (rule perform_same_browser) simp_all

text \<open>
  The open dialog: what the browser branch returns, that it does not reject, and that the
  native branch resolves to the empty list when nothing was selected.
\<close>

lemma showOpenDialog_browser:
  "\<not> TAURI w \<Longrightarrow> showOpenDialog w b options ev st =
     ((case ev of
         Change files \<Rightarrow> Resolved (map file_name (files_or_none files))
       | Cancel \<Rightarrow> Pending), st)"
  by (simp add: showOpenDialog_def click_def split: input_event.splits)

lemma showOpenDialog_browser_never_rejects:
  "\<not> TAURI w \<Longrightarrow> fst (showOpenDialog w b options ev st) \<noteq> Rejected e"
  by (simp add: showOpenDialog_browser split: input_event.splits)

lemma showOpenDialog_native_no_selection:
  assumes "TAURI w" and "available b PluginDialog"
    and "dialog_open b (opt_multiple options) (opt_directory options) = Resolved NoResult"
  shows "fst (showOpenDialog w b options ev st) = Resolved []"
  using assms by (simp add: showOpenDialog_def import_then_def await_def open_paths_def)

subsection \<open>Detection\<close>

text \<open>
  C4. When a native marker is present at initialization (the flag \<open>__TAURI_NATIVE__\<close>
  is truthy or the object \<open>__TAURI__\<close> is there), the detection sets all six flags
  to true, whatever the browser supports.
\<close>

theorem native_marker_all_flags:
  assumes "truthy (TAURI_NATIVE w) \<or> TAURI w"
  shows "checkCapabilities w =
           \<lparr>isNative = True, hasFileSystem = True, hasNotifications = True,
            hasClipboard = True, hasDialog = True, hasShell = True\<rparr>"
  using assms by (auto simp: checkCapabilities_def)

theorem native_marker_all_flags_witness:
  "(truthy (TAURI_NATIVE flag_only) \<or> TAURI flag_only) \<and>
   \<not> Notification_in_window flag_only \<and> \<not> clipboard_in_navigator flag_only \<and>
   checkCapabilities flag_only =
     \<lparr>isNative = True, hasFileSystem = True, hasNotifications = True,
      hasClipboard = True, hasDialog = True, hasShell = True\<rparr>"
proof -
  have marker: "truthy (TAURI_NATIVE flag_only) \<or> TAURI flag_only"
    by (simp add: flag_only_def truthy_def)
  from native_marker_all_flags [OF marker] marker show ?thesis
    by (simp add: flag_only_def)
qed

text \<open>
  C5. When no native marker is present, \<open>isNative\<close>, \<open>hasFileSystem\<close>,
  \<open>hasDialog\<close> and \<open>hasShell\<close> are false, \<open>hasClipboard\<close> is the presence of
  the clipboard API and \<open>hasNotifications\<close> the presence of the Notification API.
\<close>

theorem no_marker_flags:
  assumes "\<not> truthy (TAURI_NATIVE w)" and "\<not> TAURI w"
  shows "checkCapabilities w =
           \<lparr>isNative = False, hasFileSystem = False,
            hasNotifications = Notification_in_window w,
            hasClipboard = clipboard_in_navigator w,
            hasDialog = False, hasShell = False\<rparr>"
  using assms by (simp add: checkCapabilities_def)

theorem no_marker_flags_witness:
  "\<not> truthy (TAURI_NATIVE jsdom) \<and> \<not> TAURI jsdom \<and>
   checkCapabilities jsdom =
     \<lparr>isNative = False, hasFileSystem = False, hasNotifications = False,
      hasClipboard = True, hasDialog = False, hasShell = False\<rparr>"
proof -
  have a: "\<not> truthy (TAURI_NATIVE jsdom)" and b: "\<not> TAURI jsdom"
    by (simp_all add: jsdom_def truthy_def)
  from no_marker_flags [OF a b] a b show ?thesis
    by (simp add: jsdom_def)
qed

subsection \<open>Files in the browser fallback\<close>



text \<open>
  C6 says that \<open>readFile(P)\<close>, in the browser fallback, resolves to the empty string
  and never rejects for a path never written. Where the browser blocks the local store
  the read of \<open>localStorage\<close> throws, nothing catches it, and the promise rejects.
\<close>

theorem read_blocked_storage:
  "localStorage fresh (file_key ''/a.txt'') = None \<and>
   fst (readFile jsdom tauri_plugin_mock storage_off ''/a.txt'' fresh) = Rejected SecurityError"
  by (simp add: readFile_def getItem_def jsdom_def storage_off_def unlimited_def fresh_def)

text \<open>
  C6, amended. Let the key of \<open>P\<close> be absent from the store when a session starts and
  no event of the session be a call \<open>writeFile(P, _)\<close>. Then, in the browser fallback,
  \<open>readFile(P)\<close> resolves to the empty string whenever the page may use the local
  store; where the browser blocks the store it rejects with the security error. In both
  cases it leaves the browser as it is.
\<close>

theorem read_unwritten:
  assumes "localStorage (world s) (file_key P) = None"
    and "\<forall>C. Call (WriteFile P C) \<notin> set es"
    and "\<not> TAURI (globals (run b h s es))"
  shows "readFile (globals (run b h s es)) b h P (world (run b h s es))
           = (if storage_blocked h then Rejected SecurityError else Resolved [],
              world (run b h s es))"
proof -
  from assms(1,2) have "localStorage (world (run b h s es)) (file_key P) = None"
    by (rule run_absent)
  with assms(3) show ?thesis
    by (simp add: readFile_browser or_else_None)
qed

theorem read_unwritten_witness:
  "localStorage (world (useNative jsdom fresh)) (file_key ''/a.txt'') = None \<and>
   (\<forall>C. Call (WriteFile ''/a.txt'' C) \<notin> set example_session) \<and>
   \<not> TAURI (globals (run tauri_plugin_mock unlimited (useNative jsdom fresh) example_session)) \<and>
   \<not> storage_blocked unlimited \<and>
   fst (readFile (globals (run tauri_plugin_mock unlimited (useNative jsdom fresh) example_session))
          tauri_plugin_mock unlimited ''/a.txt''
          (world (run tauri_plugin_mock unlimited (useNative jsdom fresh) example_session)))
     = Resolved []"
proof -
  have a: "localStorage (world (useNative jsdom fresh)) (file_key ''/a.txt'') = None"
    by (simp add: useNative_def fresh_def)
  have n: "\<forall>C. Call (WriteFile ''/a.txt'' C) \<notin> set example_session"
    by (simp add: example_session_def)
  have g: "\<not> TAURI (globals (run tauri_plugin_mock unlimited (useNative jsdom fresh) example_session))"
    by (simp add: example_session_def run_def useNative_def jsdom_def)
  have u: "\<not> storage_blocked unlimited"
    by (simp add: unlimited_def)
  from read_unwritten [OF a n g] a n g u show ?thesis
    by simp
qed

text \<open>
  C8. Frame of the file operations in the browser fallback: \<open>writeFile(P, C)\<close> changes
  no key other than \<open>zos:file:P\<close> and, the store taking the entry, puts the raw
  string \<open>C\<close> under that key and changes nothing else in the browser; \<open>readFile\<close>
  changes nothing; and whatever operation of the hook changes a key of the store, it is a
  \<open>writeFile(P', C')\<close> and the key is \<open>zos:file:P'\<close>, now holding \<open>C'\<close>.
\<close>

theorem file_frame:
  assumes "\<not> TAURI w"
  shows "(\<forall>k. k \<noteq> file_key P \<longrightarrow>
            localStorage (snd (writeFile w b h P C st)) k = localStorage st k) \<and>
         (\<not> storage_blocked h \<and> quota h (localStorage st) (file_key P) C \<longrightarrow>
            writeFile w b h P C st
              = (Resolved (), st\<lparr>localStorage := (localStorage st)(file_key P \<mapsto> C)\<rparr>)) \<and>
         snd (readFile w b h P st) = st \<and>
         (\<forall>c k. localStorage (snd (perform w b h c st)) k \<noteq> localStorage st k \<longrightarrow>
            (\<exists>P' C'. c = WriteFile P' C' \<and> k = file_key P' \<and>
               localStorage (snd (perform w b h c st)) k = Some C'))"
proof (intro conjI allI impI)
  fix k assume "k \<noteq> file_key P"
  with assms show "localStorage (snd (writeFile w b h P C st)) k = localStorage st k"
    by (simp add: writeFile_browser)
next
  assume "\<not> storage_blocked h \<and> quota h (localStorage st) (file_key P) C"
  with assms show "writeFile w b h P C st
      = (Resolved (), st\<lparr>localStorage := (localStorage st)(file_key P \<mapsto> C)\<rparr>)"
    by (simp add: writeFile_browser)
next
  from assms show "snd (readFile w b h P st) = st"
    by (simp add: readFile_browser)
next
  fix c k
  assume ch: "localStorage (snd (perform w b h c st)) k \<noteq> localStorage st k"
  show "\<exists>P' C'. c = WriteFile P' C' \<and> k = file_key P' \<and>
          localStorage (snd (perform w b h c st)) k = Some C'"
    using ch unfolding perform_localStorage
    by (auto split: call.splits if_splits)
qed

theorem file_frame_witness:
  "\<not> TAURI jsdom \<and>
   ''zos:file:/b.txt'' \<noteq> file_key ''/a.txt'' \<and>
   localStorage (snd (writeFile jsdom tauri_plugin_mock unlimited ''/a.txt'' ''new'' other_file))
     ''zos:file:/b.txt'' = Some ''old'' \<and>
   \<not> storage_blocked unlimited \<and>
   quota unlimited (localStorage other_file) (file_key ''/a.txt'') ''new'' \<and>
   localStorage (snd (writeFile jsdom tauri_plugin_mock unlimited ''/a.txt'' ''new'' other_file))
     ''zos:file:/a.txt'' = Some ''new'' \<and>
   snd (readFile jsdom tauri_plugin_mock unlimited ''/a.txt'' other_file) = other_file \<and>
   localStorage (snd (perform jsdom tauri_plugin_mock unlimited (WriteFile ''/a.txt'' ''new'') other_file))
     ''zos:file:/a.txt'' \<noteq> localStorage other_file ''zos:file:/a.txt''"
proof -
  have a: "\<not> TAURI jsdom"
    by (simp add: jsdom_def)
  have k: "''zos:file:/b.txt'' \<noteq> file_key ''/a.txt''"
    by (simp add: file_key_def)
  have u: "\<not> storage_blocked unlimited"
    by (simp add: unlimited_def)
  have q: "quota unlimited (localStorage other_file) (file_key ''/a.txt'') ''new''"
    by (simp add: unlimited_def)
  note fr = file_frame [OF a, of "''/a.txt''" tauri_plugin_mock unlimited "''new''" other_file]
  from fr k
  have 1: "localStorage (snd (writeFile jsdom tauri_plugin_mock unlimited ''/a.txt'' ''new'' other_file))
             ''zos:file:/b.txt'' = localStorage other_file ''zos:file:/b.txt''"
    by blast
  from fr u q
  have 2: "writeFile jsdom tauri_plugin_mock unlimited ''/a.txt'' ''new'' other_file
             = (Resolved (), other_file\<lparr>localStorage := (localStorage other_file)(file_key ''/a.txt'' \<mapsto> ''new'')\<rparr>)"
    by blast
  from fr have 3: "snd (readFile jsdom tauri_plugin_mock unlimited ''/a.txt'' other_file) = other_file"
    by blast
  have l: "localStorage other_file ''zos:file:/a.txt'' = None"
    by (simp add: other_file_def file_key_def)
  have 4: "localStorage (snd (perform jsdom tauri_plugin_mock unlimited (WriteFile ''/a.txt'' ''new'') other_file))
     ''zos:file:/a.txt'' \<noteq> localStorage other_file ''zos:file:/a.txt''"
    by (simp add: tag_def 2 file_key_def l)
  from 1 have 5: "localStorage (snd (writeFile jsdom tauri_plugin_mock unlimited ''/a.txt'' ''new'' other_file))
             ''zos:file:/b.txt'' = Some ''old''"
    by (simp add: other_file_def file_key_def)
  have 6: "localStorage (snd (writeFile jsdom tauri_plugin_mock unlimited ''/a.txt'' ''new'' other_file))
     ''zos:file:/a.txt'' = Some ''new''"
    unfolding 2 by (simp add: file_key_def)
  from a k 5 u q 6 3 4 show ?thesis
    by (intro conjI)
qed

subsection \<open>Which branch an operation takes\<close>

text \<open>
  C1 says that the provider is chosen once, at initialization, that no operation probes
  the environment again, and that the test selecting the branch of an operation agrees
  with the one that computed \<open>isNative\<close>. The code does otherwise. In a window with
  the flag only, \<open>isNative\<close> is true and \<open>readFile\<close> reads the local store; and in a
  session where the object \<open>__TAURI__\<close> appears after the first read, the first read
  takes the browser branch, the second imports the file-system plugin, and
  \<open>isNative\<close> is false all along.
\<close>

theorem dispatch_counterexample:
  "isNative (checkCapabilities flag_only) \<and>
   perform flag_only tauri_plugin_mock unlimited (ReadFile ''/a.txt'') stored
     = (Resolved (Text ''local''), stored) \<and>
   imported (world (run tauri_plugin_mock unlimited (useNative jsdom stored)
      [Effect, Call (ReadFile ''/a.txt'')])) = [] \<and>
   imported (world (run tauri_plugin_mock unlimited (useNative jsdom stored) switching))
     = [PluginFs] \<and>
   \<not> isNative (capabilities (run tauri_plugin_mock unlimited (useNative jsdom stored) switching))"
  by (simp add: checkCapabilities_def flag_only_def truthy_def tag_def readFile_def getItem_def
      unlimited_def
      stored_def fresh_def or_else_def file_key_def run_def useNative_def jsdom_def switching_def
      tauri_shell_def import_then_def)

text \<open>
  C1, amended. No provider is stored: each of the eight operations tests
  \<open>window.__TAURI__\<close> when it is called. With the object present it imports its plugin
  module and its promise is the one of the command of the native host (a rejection if
  the module does not load), whatever the browser holds or allows, and it leaves the
  browser alone; with the object absent it imports nothing and does not depend on the
  native host. While no script changes the globals, they are the same at every call of a
  session, hence so is the branch; and the branch is the native one exactly when
  \<open>isNative\<close> is detected, provided the flag \<open>__TAURI_NATIVE__\<close> is not set without
  the object.
\<close>

theorem dispatch_per_call:
  "(TAURI w \<longrightarrow>
      perform w b h c st =
        (if available b (plugin_of c) then native_call b c else Rejected HostUnavailable,
         st\<lparr>imported := imported st @ [plugin_of c]\<rparr>) \<and>
      fst (perform w b h c st) = fst (perform w b h' c st')) \<and>
   (\<not> TAURI w \<longrightarrow> imported (snd (perform w b h c st)) = imported st \<and>
                  perform w b h c st = perform w b' h c st) \<and>
   ((\<forall>w'. Inject w' \<notin> set es) \<longrightarrow> globals (run b h s es) = globals s) \<and>
   ((truthy (TAURI_NATIVE w) \<longrightarrow> TAURI w) \<longrightarrow> isNative (checkCapabilities w) = TAURI w)"
proof (intro conjI impI)
  assume "TAURI w"
  then show "perform w b h c st =
        (if available b (plugin_of c) then native_call b c else Rejected HostUnavailable,
         st\<lparr>imported := imported st @ [plugin_of c]\<rparr>)"
    by (rule perform_native)
next
  assume "TAURI w"
  then show "fst (perform w b h c st) = fst (perform w b h' c st')"
    by (simp add: perform_native)
next
  assume "\<not> TAURI w"
  then show "imported (snd (perform w b h c st)) = imported st"
    by (rule perform_browser_imported)
next
  assume "\<not> TAURI w"
  then show "perform w b h c st = perform w b' h c st"
    by (rule perform_bridge_unused)
next
  assume "\<forall>w'. Inject w' \<notin> set es"
  then show "globals (run b h s es) = globals s"
    by (rule run_without_inject)
next
  assume "truthy (TAURI_NATIVE w) \<longrightarrow> TAURI w"
  then show "isNative (checkCapabilities w) = TAURI w"
    by (auto simp: checkCapabilities_def Let_def)
qed

theorem dispatch_per_call_witness:
  "TAURI tauri_shell \<and>
   perform tauri_shell tauri_plugin_mock unlimited (ReadFile ''/a.txt'') stored
     = (Resolved (Text []), stored\<lparr>imported := [PluginFs]\<rparr>) \<and>
   perform tauri_shell no_plugins unlimited (ReadFile ''/a.txt'') stored
     = (Rejected HostUnavailable, stored\<lparr>imported := [PluginFs]\<rparr>) \<and>
   fst (perform tauri_shell tauri_plugin_mock unlimited (ReadFile ''/a.txt'') stored)
     = fst (perform tauri_shell tauri_plugin_mock storage_off (ReadFile ''/a.txt'') fresh) \<and>
   \<not> TAURI jsdom \<and>
   imported (snd (perform jsdom no_plugins unlimited (OpenExternal ''https://example.org'') fresh)) = [] \<and>
   perform jsdom no_plugins unlimited (OpenExternal ''https://example.org'') fresh
     = perform jsdom tauri_plugin_mock unlimited (OpenExternal ''https://example.org'') fresh \<and>
   (\<forall>w'. Inject w' \<notin> set example_session) \<and>
   globals (run no_plugins unlimited (useNative jsdom fresh) example_session) = jsdom \<and>
   \<not> truthy (TAURI_NATIVE jsdom) \<and>
   isNative (checkCapabilities jsdom) = TAURI jsdom"
proof -
  have t: "TAURI tauri_shell" and n: "\<not> TAURI jsdom" and f: "\<not> truthy (TAURI_NATIVE jsdom)"
    by (simp_all add: tauri_shell_def jsdom_def truthy_def)
  have i: "\<forall>w'. Inject w' \<notin> set example_session"
    by (simp add: example_session_def)
  have e: "imported fresh = []" "imported stored = []" "globals (useNative jsdom fresh) = jsdom"
    by (simp_all add: fresh_def stored_def useNative_def)
  note d0 = dispatch_per_call [of tauri_shell tauri_plugin_mock unlimited
      "ReadFile ''/a.txt''" stored storage_off fresh]
  note d1 = dispatch_per_call [of tauri_shell no_plugins unlimited "ReadFile ''/a.txt''" stored]
  note d2 = dispatch_per_call [of jsdom no_plugins unlimited
      "OpenExternal ''https://example.org''" fresh _ _ tauri_plugin_mock example_session
      "useNative jsdom fresh"]
  from d0 t
  have "perform tauri_shell tauri_plugin_mock unlimited (ReadFile ''/a.txt'') stored
          = (if available tauri_plugin_mock (plugin_of (ReadFile ''/a.txt''))
             then native_call tauri_plugin_mock (ReadFile ''/a.txt'') else Rejected HostUnavailable,
             stored\<lparr>imported := imported stored @ [plugin_of (ReadFile ''/a.txt'')]\<rparr>)"
    by blast
  then have 1: "perform tauri_shell tauri_plugin_mock unlimited (ReadFile ''/a.txt'') stored
                  = (Resolved (Text []), stored\<lparr>imported := [PluginFs]\<rparr>)"
    by (simp add: tauri_plugin_mock_def e)
  from d1 t
  have "perform tauri_shell no_plugins unlimited (ReadFile ''/a.txt'') stored
          = (if available no_plugins (plugin_of (ReadFile ''/a.txt''))
             then native_call no_plugins (ReadFile ''/a.txt'') else Rejected HostUnavailable,
             stored\<lparr>imported := imported stored @ [plugin_of (ReadFile ''/a.txt'')]\<rparr>)"
    by blast
  then have 2: "perform tauri_shell no_plugins unlimited (ReadFile ''/a.txt'') stored
                  = (Rejected HostUnavailable, stored\<lparr>imported := [PluginFs]\<rparr>)"
    by (simp add: no_plugins_def tauri_plugin_mock_def e)
  from d0 t
  have 3: "fst (perform tauri_shell tauri_plugin_mock unlimited (ReadFile ''/a.txt'') stored)
             = fst (perform tauri_shell tauri_plugin_mock storage_off (ReadFile ''/a.txt'') fresh)"
    by blast
  from d2 n
  have 4: "imported (snd (perform jsdom no_plugins unlimited (OpenExternal ''https://example.org'') fresh))
             = imported fresh"
    and 5: "perform jsdom no_plugins unlimited (OpenExternal ''https://example.org'') fresh
             = perform jsdom tauri_plugin_mock unlimited (OpenExternal ''https://example.org'') fresh"
    by blast+
  from d2 i
  have 6: "globals (run no_plugins unlimited (useNative jsdom fresh) example_session)
             = globals (useNative jsdom fresh)"
    by blast
  from d2 f have 7: "isNative (checkCapabilities jsdom) = TAURI jsdom"
    by blast
  from t 1 2 3 n 4 5 i 6 f 7 show ?thesis
    unfolding e by (intro conjI)
qed

text \<open>
  C9. In a window where the flag \<open>__TAURI_NATIVE__\<close> is set and the object
  \<open>__TAURI__\<close> is absent, the detection reports all six flags true, \<open>isNative\<close>
  among them, and yet every one of the eight operations takes the browser fallback: it
  imports no plugin module and does exactly what it does in a window without any
  marker, whatever the native host is.
\<close>

theorem flag_without_object:
  assumes "truthy (TAURI_NATIVE w)" and "\<not> TAURI w"
  shows "checkCapabilities w =
           \<lparr>isNative = True, hasFileSystem = True, hasNotifications = True,
            hasClipboard = True, hasDialog = True, hasShell = True\<rparr> \<and>
         (\<forall>c. imported (snd (perform w b h c st)) = imported st \<and>
              perform w b h c st = perform (w\<lparr>TAURI_NATIVE := None\<rparr>) b' h c st)"
proof (intro conjI allI)
  from assms(1) show "checkCapabilities w =
           \<lparr>isNative = True, hasFileSystem = True, hasNotifications = True,
            hasClipboard = True, hasDialog = True, hasShell = True\<rparr>"
    by (simp add: checkCapabilities_def)
next
  fix c
  from assms(2) show "imported (snd (perform w b h c st)) = imported st"
    by (rule perform_browser_imported)
next
  fix c
  from assms(2) show "perform w b h c st = perform (w\<lparr>TAURI_NATIVE := None\<rparr>) b' h c st"
    by (intro perform_same_browser) simp_all
qed

theorem flag_without_object_witness:
  "truthy (TAURI_NATIVE flag_only) \<and> \<not> TAURI flag_only \<and>
   isNative (checkCapabilities flag_only) \<and>
   hasFileSystem (checkCapabilities flag_only) \<and>
   imported (snd (perform flag_only tauri_plugin_mock unlimited (ReadFile ''/a.txt'') stored)) = [] \<and>
   perform flag_only tauri_plugin_mock unlimited (ReadFile ''/a.txt'') stored
     = (Resolved (Text ''local''), stored)"
proof -
  have a: "truthy (TAURI_NATIVE flag_only)" and n: "\<not> TAURI flag_only"
    by (simp_all add: flag_only_def truthy_def)
  note fw = flag_without_object [OF a n, of tauri_plugin_mock unlimited stored no_plugins]
  have r: "perform (flag_only\<lparr>TAURI_NATIVE := None\<rparr>) no_plugins unlimited (ReadFile ''/a.txt'') stored
             = (Resolved (Text ''local''), stored)"
    by (simp add: flag_only_def tag_def readFile_def getItem_def stored_def or_else_def file_key_def
        unlimited_def)
  from fw have "isNative (checkCapabilities flag_only)"
    and "hasFileSystem (checkCapabilities flag_only)"
    by simp_all
  moreover from fw
  have "imported (snd (perform flag_only tauri_plugin_mock unlimited (ReadFile ''/a.txt'') stored))
          = imported stored"
    by blast
  moreover from fw
  have "perform flag_only tauri_plugin_mock unlimited (ReadFile ''/a.txt'') stored
          = perform (flag_only\<lparr>TAURI_NATIVE := None\<rparr>) no_plugins unlimited (ReadFile ''/a.txt'') stored"
    by blast
  with r
  have "perform flag_only tauri_plugin_mock unlimited (ReadFile ''/a.txt'') stored
          = (Resolved (Text ''local''), stored)"
    by (simp only:)
  ultimately show ?thesis using a n
    by (simp add: stored_def fresh_def)
qed

subsection \<open>The capability state of a session\<close>

text \<open>
  C10. The capability record that \<open>useNative\<close> returns has all six flags false on
  mount, in every environment, and keeps them so as long as the detection effect has not
  run; a step of a session changes the record only if it is the effect and the effect has
  not run before, so that the record changes at most once in a session.
\<close>

theorem flags_change_once:
  "capabilities (useNative w st) =
      \<lparr>isNative = False, hasFileSystem = False, hasNotifications = False,
       hasClipboard = False, hasDialog = False, hasShell = False\<rparr> \<and>
   (Effect \<notin> set es \<longrightarrow>
      capabilities (run b h (useNative w st) es) = capabilities (useNative w st)) \<and>
   (\<forall>s e. capabilities (step b h s e) \<noteq> capabilities s \<longrightarrow> e = Effect \<and> \<not> effect_done s) \<and>
   changes (shown b h (useNative w st) es) \<le> 1"
proof (intro conjI allI impI)
  show "capabilities (useNative w st) =
      \<lparr>isNative = False, hasFileSystem = False, hasNotifications = False,
       hasClipboard = False, hasDialog = False, hasShell = False\<rparr>"
    by (simp add: useNative_def initial_capabilities_def)
next
  assume "Effect \<notin> set es"
  then show "capabilities (run b h (useNative w st) es) = capabilities (useNative w st)"
    by (rule run_without_effect)
next
  fix s e assume ch: "capabilities (step b h s e) \<noteq> capabilities s"
  then show "e = Effect" by (simp add: step_capabilities split: if_splits)
  from ch show "\<not> effect_done s" by (simp add: step_capabilities split: if_splits)
next
  show "changes (shown b h (useNative w st) es) \<le> 1"
    by (rule changes_at_most_once)
qed

theorem flags_change_once_witness:
  "Effect \<notin> set [Call (ReadFile ''/a.txt'')] \<and>
   capabilities (run tauri_plugin_mock unlimited (useNative tauri_shell fresh) [Call (ReadFile ''/a.txt'')])
     = \<lparr>isNative = False, hasFileSystem = False, hasNotifications = False,
        hasClipboard = False, hasDialog = False, hasShell = False\<rparr> \<and>
   capabilities (step tauri_plugin_mock unlimited (useNative tauri_shell fresh) Effect)
     \<noteq> capabilities (useNative tauri_shell fresh) \<and>
   \<not> effect_done (useNative tauri_shell fresh) \<and>
   changes (shown tauri_plugin_mock unlimited (useNative tauri_shell fresh) busy_session) \<le> 1"
proof -
  have e: "Effect \<notin> set [Call (ReadFile ''/a.txt'')]"
    by simp
  have c: "capabilities (step tauri_plugin_mock unlimited (useNative tauri_shell fresh) Effect)
             \<noteq> capabilities (useNative tauri_shell fresh)"
    by (simp add: useNative_def initial_capabilities_def checkCapabilities_def tauri_shell_def)
  note f1 = flags_change_once [of tauri_shell fresh "[Call (ReadFile ''/a.txt'')]"
      tauri_plugin_mock unlimited]
  note f2 = flags_change_once [of tauri_shell fresh busy_session tauri_plugin_mock unlimited]
  from f1 e
  have 1: "capabilities (run tauri_plugin_mock unlimited (useNative tauri_shell fresh)
              [Call (ReadFile ''/a.txt'')])
            = \<lparr>isNative = False, hasFileSystem = False, hasNotifications = False,
               hasClipboard = False, hasDialog = False, hasShell = False\<rparr>"
    by simp
  from f2 c have 2: "\<not> effect_done (useNative tauri_shell fresh)"
    by blast
  from f2 have 3: "changes (shown tauri_plugin_mock unlimited (useNative tauri_shell fresh) busy_session) \<le> 1"
    by blast
  from e 1 c 2 3 show ?thesis
    by (intro conjI)
qed

subsection \<open>Dialogs and notifications\<close>

text \<open>
  C2 says that \<open>showOpenDialog\<close>, in the browser fallback, resolves to the empty list
  when the user cancels the selection. In the code the promise is resolved by the
  \<open>change\<close> handler only, which a cancelled picker never calls: the promise stays
  pending. (It does not reject either, and the native branch does return the empty list
  when nothing is selected.)
\<close>

theorem open_dialog_cancel_pending:
  "showOpenDialog jsdom tauri_plugin_mock None Cancel fresh = (Pending, fresh)"
  by (simp add: showOpenDialog_def click_def jsdom_def)

text \<open>
  C7 says that \<open>notify\<close> never fails the promise the caller sees. Nothing in
  \<open>notify\<close> catches what its calls throw. On the native branch the promise rejects
  when the plugin module does not load or its command rejects; in the browser fallback
  it rejects, and nothing is shown, where the permission is granted and
  \<open>new Notification\<close> throws.
\<close>

theorem notify_rejects:
  "fst (notify tauri_shell no_plugins unlimited ''Build finished'' None (Resolved Default) fresh)
     = Rejected HostUnavailable \<and>
   notify with_notifications tauri_plugin_mock illegal_constructor ''Build finished'' None
       (Resolved Default) granted
     = (Rejected TypeError, granted)"
  by (simp add: notify_def tauri_shell_def import_then_def no_plugins_def tauri_plugin_mock_def
      with_notifications_def jsdom_def granted_def new_Notification_def illegal_constructor_def
      unlimited_def)

text \<open>
  C7, amended. In the browser fallback \<open>notify\<close> constructs the notification at once
  when the permission is granted; with the permission undetermined it requests the
  permission first and constructs the notification only if the request resolves to
  granted; with the permission denied, or without a Notification API, it is a silent
  no-op that resolves. A constructed notification is displayed and the promise resolves,
  unless the constructor throws: then nothing is displayed and the promise rejects. While
  the permission request is pending so is the promise, and a rejected request rejects
  it. So the promise of the browser fallback does not reject as long as no call of the
  browser fails. On the native branch the promise settles as the import of the
  notification plugin and its \<open>sendNotification\<close> do, a rejection included.
\<close>

theorem notify_settles:
  "(\<not> TAURI w \<and> Notification_in_window w \<and> permission st = Granted \<longrightarrow>
      notify w b h title body answer st =
        (if Notification_constructor h then (Resolved (), display title body st)
         else (Rejected TypeError, st))) \<and>
   (\<not> TAURI w \<and> Notification_in_window w \<and> permission st = Default \<and>
      answer = Resolved Granted \<longrightarrow>
      notify w b h title body answer st =
        (if Notification_constructor h then (Resolved (), display title body (asked Granted st))
         else (Rejected TypeError, asked Granted st))) \<and>
   (\<forall>p. \<not> TAURI w \<and> Notification_in_window w \<and> permission st = Default \<and>
      answer = Resolved p \<and> p \<noteq> Granted \<longrightarrow>
      notify w b h title body answer st = (Resolved (), asked p st)) \<and>
   (\<not> TAURI w \<and> Notification_in_window w \<and> permission st = Default \<and> answer = Pending \<longrightarrow>
      notify w b h title body answer st = (Pending, asked Default st)) \<and>
   (\<forall>e. \<not> TAURI w \<and> Notification_in_window w \<and> permission st = Default \<and>
      answer = Rejected e \<longrightarrow>
      notify w b h title body answer st = (Rejected e, asked Default st)) \<and>
   (\<not> TAURI w \<and> (permission st = Denied \<or> \<not> Notification_in_window w) \<longrightarrow>
      notify w b h title body answer st = (Resolved (), st)) \<and>
   (\<not> TAURI w \<and> Notification_constructor h \<and> (\<forall>e. answer \<noteq> Rejected e) \<longrightarrow>
      (\<forall>e. fst (notify w b h title body answer st) \<noteq> Rejected e)) \<and>
   (TAURI w \<longrightarrow>
      fst (notify w b h title body answer st) =
        (if available b PluginNotification then sendNotification b title body
         else Rejected HostUnavailable))"
proof (intro conjI allI impI)
  assume "\<not> TAURI w \<and> Notification_in_window w \<and> permission st = Granted"
  then show "notify w b h title body answer st =
        (if Notification_constructor h then (Resolved (), display title body st)
         else (Rejected TypeError, st))"
    by (simp add: notify_def new_Notification_def)
next
  assume "\<not> TAURI w \<and> Notification_in_window w \<and> permission st = Default \<and>
      answer = Resolved Granted"
  then show "notify w b h title body answer st =
        (if Notification_constructor h then (Resolved (), display title body (asked Granted st))
         else (Rejected TypeError, asked Granted st))"
    by (simp add: notify_def new_Notification_def requestPermission_def asked_def)
next
  fix p
  assume "\<not> TAURI w \<and> Notification_in_window w \<and> permission st = Default \<and>
      answer = Resolved p \<and> p \<noteq> Granted"
  then show "notify w b h title body answer st = (Resolved (), asked p st)"
    by (simp add: notify_def requestPermission_def asked_def)
next
  assume "\<not> TAURI w \<and> Notification_in_window w \<and> permission st = Default \<and> answer = Pending"
  then show "notify w b h title body answer st = (Pending, asked Default st)"
    by (simp add: notify_def requestPermission_def asked_def)
next
  fix e
  assume "\<not> TAURI w \<and> Notification_in_window w \<and> permission st = Default \<and>
      answer = Rejected e"
  then show "notify w b h title body answer st = (Rejected e, asked Default st)"
    by (simp add: notify_def requestPermission_def asked_def)
next
  assume "\<not> TAURI w \<and> (permission st = Denied \<or> \<not> Notification_in_window w)"
  then show "notify w b h title body answer st = (Resolved (), st)"
    by (auto simp: notify_def requestPermission_def)
next
  fix e
  assume a: "\<not> TAURI w \<and> Notification_constructor h \<and> (\<forall>e. answer \<noteq> Rejected e)"
  show "fst (notify w b h title body answer st) \<noteq> Rejected e"
  proof (cases answer)
    case (Rejected e')
    with a show ?thesis by simp
  qed (use a in \<open>simp_all add: notify_def new_Notification_def requestPermission_def\<close>)
next
  assume "TAURI w"
  then show "fst (notify w b h title body answer st) =
        (if available b PluginNotification then sendNotification b title body
         else Rejected HostUnavailable)"
    by (simp add: notify_def import_then_def)
qed

theorem notify_settles_witness:
  "\<not> TAURI with_notifications \<and> Notification_in_window with_notifications \<and>
   Notification_constructor unlimited \<and> \<not> Notification_constructor illegal_constructor \<and>
   permission granted = Granted \<and> permission fresh = Default \<and> permission denied = Denied \<and>
   notify with_notifications no_plugins unlimited ''Build finished'' None Pending granted
     = (Resolved (), display ''Build finished'' None granted) \<and>
   notify with_notifications no_plugins illegal_constructor ''Build finished'' None Pending granted
     = (Rejected TypeError, granted) \<and>
   notify with_notifications no_plugins unlimited ''Build finished'' None (Resolved Granted) fresh
     = (Resolved (), display ''Build finished'' None (asked Granted fresh)) \<and>
   notify with_notifications no_plugins unlimited ''Build finished'' None (Resolved Denied) fresh
     = (Resolved (), asked Denied fresh) \<and>
   notify with_notifications no_plugins unlimited ''Build finished'' None Pending fresh
     = (Pending, asked Default fresh) \<and>
   notify with_notifications no_plugins unlimited ''Build finished'' None
       (Rejected PermissionDenied) fresh
     = (Rejected PermissionDenied, asked Default fresh) \<and>
   notify with_notifications no_plugins unlimited ''Build finished'' None (Resolved Granted) denied
     = (Resolved (), denied) \<and>
   fst (notify with_notifications no_plugins unlimited ''Build finished'' None (Resolved Granted)
          fresh) \<noteq> Rejected TypeError \<and>
   TAURI tauri_shell \<and>
   fst (notify tauri_shell tauri_plugin_mock unlimited ''Build finished'' None Pending fresh)
     = Resolved ()"
proof -
  have n: "\<not> TAURI with_notifications" and a: "Notification_in_window with_notifications"
    and t: "TAURI tauri_shell"
    by (simp_all add: with_notifications_def jsdom_def tauri_shell_def)
  have c: "Notification_constructor unlimited"
    and i: "\<not> Notification_constructor illegal_constructor"
    by (simp_all add: unlimited_def illegal_constructor_def)
  have g: "permission granted = Granted" and u: "permission fresh = Default"
    and d: "permission denied = Denied"
    by (simp_all add: granted_def denied_def fresh_def)
  note on_granted = notify_settles [of with_notifications granted no_plugins unlimited
      "''Build finished''" None Pending]
  note on_illegal = notify_settles [of with_notifications granted no_plugins illegal_constructor
      "''Build finished''" None Pending]
  note on_yes = notify_settles [of with_notifications fresh no_plugins unlimited
      "''Build finished''" None "Resolved Granted"]
  note on_no = notify_settles [of with_notifications fresh no_plugins unlimited
      "''Build finished''" None "Resolved Denied"]
  note on_open = notify_settles [of with_notifications fresh no_plugins unlimited
      "''Build finished''" None Pending]
  note on_failed = notify_settles [of with_notifications fresh no_plugins unlimited
      "''Build finished''" None "Rejected PermissionDenied"]
  note on_denied = notify_settles [of with_notifications denied no_plugins unlimited
      "''Build finished''" None "Resolved Granted"]
  note on_native = notify_settles [of tauri_shell fresh tauri_plugin_mock unlimited
      "''Build finished''" None Pending]
  from on_granted n a g c
  have 1: "notify with_notifications no_plugins unlimited ''Build finished'' None Pending granted
             = (Resolved (), display ''Build finished'' None granted)"
    by simp
  from on_illegal n a g i
  have 2: "notify with_notifications no_plugins illegal_constructor ''Build finished'' None Pending
             granted = (Rejected TypeError, granted)"
    by simp
  from on_yes n a u c
  have 3: "notify with_notifications no_plugins unlimited ''Build finished'' None (Resolved Granted)
             fresh = (Resolved (), display ''Build finished'' None (asked Granted fresh))"
    by simp
  from on_no n a u
  have 4: "notify with_notifications no_plugins unlimited ''Build finished'' None (Resolved Denied)
             fresh = (Resolved (), asked Denied fresh)"
    by simp
  from on_open n a u
  have 5: "notify with_notifications no_plugins unlimited ''Build finished'' None Pending fresh
             = (Pending, asked Default fresh)"
    by simp
  from on_failed n a u
  have 6: "notify with_notifications no_plugins unlimited ''Build finished'' None
             (Rejected PermissionDenied) fresh = (Rejected PermissionDenied, asked Default fresh)"
    by simp
  from on_denied n d
  have 7: "notify with_notifications no_plugins unlimited ''Build finished'' None (Resolved Granted)
             denied = (Resolved (), denied)"
    by simp
  from on_yes n c
  have 8: "fst (notify with_notifications no_plugins unlimited ''Build finished'' None
             (Resolved Granted) fresh) \<noteq> Rejected TypeError"
    by simp
  from on_native t
  have "fst (notify tauri_shell tauri_plugin_mock unlimited ''Build finished'' None Pending fresh)
          = (if available tauri_plugin_mock PluginNotification
             then sendNotification tauri_plugin_mock ''Build finished'' None
             else Rejected HostUnavailable)"
    by blast
  then have 9: "fst (notify tauri_shell tauri_plugin_mock unlimited ''Build finished'' None Pending
             fresh) = Resolved ()"
    by (simp add: tauri_plugin_mock_def)
  from n a c i g u d 1 2 3 4 5 6 7 8 t 9 show ?thesis
    by (intro conjI)
qed

end
